theory Spec2Isabelle
  imports Main
begin

section \<open>Shared vocabulary: effects, timers, promises, exceptions\<close>

text \<open>
  The two components of the viewer are React class components.  Each method is embedded
  as a function from \<open>this.state\<close> as the method reads it (and whatever the environment
  hands to the method) to a state, the list of observable effects in program order, and
  the exception that left the method, if any.  \<open>this.setState\<close> does not assign
  \<open>this.state\<close>: it queues an update that React applies later.  The state a method
  returns is the state it was given with the updates of its \<open>setState\<close> calls applied,
  that is, what \<open>this.state\<close> is once React has applied them.  No method reads a field of
  \<open>this.state\<close> after one of its own \<open>setState\<close> calls has written that field.  Where a
  second call may read \<open>this.state\<close> before React has applied the updates of the first,
  the state that is read and the state that is written are kept apart.  A leading
  underscore of a method name is dropped (\<open>_startStream\<close> is \<open>startStream\<close>).
\<close>

text \<open>The callbacks handed to \<open>setTimeout\<close>.\<close>

datatype task =
    PollForSessionReady string   \<comment> \<open>\<open>() => this.pollForSessionReady(sessionId)\<close>\<close>
  | PollForKitReady              \<comment> \<open>\<open>() => this._pollForKitReady()\<close>\<close>

text \<open>
  Console output carries the message text (further object arguments are left out).
  The three backend calls of \<open>Endpoints\<close> carry their arguments.
\<close>

datatype effect =
    ConsoleLog string
  | ConsoleInfo string
  | ConsoleError string
  | Alert string
  | CreateStreamingSession string string string string
  | GetStreamingSessionInfo string string
  | DestroyStreamingSession string string
  | SetTimeout task nat
  | Terminate                    \<comment> \<open>\<open>AppStreamer.terminate()\<close>\<close>
  | SendMessage string           \<comment> \<open>\<open>AppStream.sendMessage(text)\<close>\<close>

text \<open>What an awaited promise settles to.\<close>

datatype 'a settled = Fulfilled 'a | Rejected

datatype exn = TypeError | SyntaxError | Rejection

text \<open>Projections of a trace.\<close>

fun alerts :: "effect list \<Rightarrow> string list" where
  "alerts [] = []"
| "alerts (Alert m # es) = m # alerts es"
| "alerts (e # es) = alerts es"

fun timers :: "effect list \<Rightarrow> (task \<times> nat) list" where
  "timers [] = []"
| "timers (SetTimeout t d # es) = (t, d) # timers es"
| "timers (e # es) = timers es"

fun outbound :: "effect list \<Rightarrow> string list" where
  "outbound [] = []"
| "outbound (SendMessage m # es) = m # outbound es"
| "outbound (e # es) = outbound es"

fun backend_calls :: "effect list \<Rightarrow> effect list" where
  "backend_calls [] = []"
| "backend_calls (CreateStreamingSession a b c d # es) =
     CreateStreamingSession a b c d # backend_calls es"
| "backend_calls (GetStreamingSessionInfo a b # es) =
     GetStreamingSessionInfo a b # backend_calls es"
| "backend_calls (DestroyStreamingSession a b # es) =
     DestroyStreamingSession a b # backend_calls es"
| "backend_calls (e # es) = backend_calls es"

text \<open>Template literals print a number in decimal.\<close>

definition decimal_digit :: "nat \<Rightarrow> char" where
  "decimal_digit d = ''0123456789'' ! d"

fun decimal_nat :: "nat \<Rightarrow> string" where
  "decimal_nat n =
     (if 10 \<le> n then decimal_nat (n div 10) @ [decimal_digit (n mod 10)]
      else [decimal_digit n])"

declare decimal_nat.simps [simp del]

definition number_text :: "int \<Rightarrow> string" where
  "number_text i =
     (if 0 \<le> i then decimal_nat (nat i) else CHR ''-'' # decimal_nat (nat (- i)))"

text \<open>String conversion of a possibly undefined string.\<close>

fun js_string :: "string option \<Rightarrow> string" where
  "js_string None = ''undefined''"
| "js_string (Some s) = s"

section \<open>Session lifecycle controller (\<open>src/App.tsx\<close>)\<close>

subsection \<open>Data\<close>

datatype StreamStatus = IDLE | INITIALIZING | INITIALIZED

datatype Forms =
    Forms_IDLE | AppOnly | StreamURLs | Applications | Versions | Profiles
  | Stream | StreamOnly

text \<open>
  \<open>stream.config.json\<close> is not part of the sources: its entries are parameters.
\<close>

record StreamConfig =
  cfg_streamServer :: string     \<comment> \<open>\<open>StreamConfig.stream.streamServer\<close>\<close>
  cfg_appServer :: string        \<comment> \<open>\<open>StreamConfig.stream.appServer\<close>\<close>
  cfg_source :: string           \<comment> \<open>\<open>StreamConfig.source\<close>\<close>

text \<open>
  \<open>Application\<close> comes from \<open>./Forms\<close>, which is not part of the sources: it is the
  type parameter \<open>'app\<close>.
\<close>

record 'app AppState =
  currentForm :: Forms
  useWebUI :: bool
  streamServer :: string
  appServer :: string
  applications :: "'app list"
  applicationVersions :: "string list"
  applicationProfiles :: "string list"
  selectedApplicationId :: string
  selectedApplicationVersion :: string
  selectedApplicationProfile :: string
  streamStatus :: StreamStatus
  connectionText :: string
  backendUrl :: string
  signalingserver :: string
  signalingport :: int
  mediaserver :: string
  mediaport :: int
  accessToken :: string
  sessionId :: string

text \<open>
  The session descriptor of \<open>Endpoints\<close> as the controller reads it:
  \<open>createdStream.id\<close>, \<open>createdStream.routes[host].routes\<close>, and of each route its
  \<open>description\<close> and \<open>source_port\<close>.  The route mapping is an object; it is kept as the
  list of its entries in the order \<open>Object.keys\<close> enumerates them.
\<close>

record Route =
  description :: string
  source_port :: int

record RouteEntry =
  entry_routes :: "Route list"   \<comment> \<open>the inner \<open>.routes\<close>\<close>

record StreamItem =
  item_id :: string              \<comment> \<open>\<open>.id\<close>\<close>
  routes :: "(string \<times> RouteEntry) list"

text \<open>
  A response of \<open>createStreamingSession\<close> and \<open>getStreamingSessionInfo\<close>: the code reads
  \<open>status\<close> and casts \<open>data\<close> to \<open>StreamItem\<close>; \<open>None\<close> is a body that is absent.
  A response of \<open>destroyStreamingSession\<close> may carry a \<open>detail\<close>.
\<close>

record Response =
  status :: int
  data :: "StreamItem option"

record DestroyResponse =
  detail :: "string option"

type_synonym 's outcome = "'s \<times> effect list \<times> exn option"

subsection \<open>Constructor and \<open>_resetState\<close>\<close>

definition App_constructor :: "StreamConfig \<Rightarrow> 'app AppState" where
  "App_constructor cfg =
     \<lparr> currentForm = AppOnly,
       useWebUI = True,
       streamServer = cfg_streamServer cfg,
       appServer = cfg_appServer cfg,
       applications = [],
       applicationVersions = [],
       applicationProfiles = [],
       selectedApplicationId = [],
       selectedApplicationVersion = [],
       selectedApplicationProfile = [],
       streamStatus = IDLE,
       connectionText = [],
       backendUrl = [],
       signalingserver = [],
       signalingport = 0,
       mediaserver = [],
       mediaport = 0,
       accessToken = [],
       sessionId = [] \<rparr>"

definition resetState :: "StreamConfig \<Rightarrow> 'app AppState \<Rightarrow> 'app AppState" where
  "resetState cfg st =
     st\<lparr> currentForm := AppOnly,
         useWebUI := True,
         streamServer := cfg_streamServer cfg,
         appServer := cfg_appServer cfg,
         applications := [],
         applicationVersions := [],
         applicationProfiles := [],
         selectedApplicationId := [],
         selectedApplicationVersion := [],
         selectedApplicationProfile := [],
         streamStatus := IDLE,
         connectionText := [],
         backendUrl := [],
         signalingserver := [],
         signalingport := 0,
         mediaserver := [],
         mediaport := 0,
         accessToken := [],
         sessionId := [] \<rparr>"

subsection \<open>\<open>setupStream\<close>\<close>

text \<open>
  The argument is \<open>None\<close> when the caller passes an absent body: reading \<open>.id\<close> of it
  is a \<open>TypeError\<close>.  With an empty route mapping \<open>Object.keys(...)[0]\<close> is undefined,
  so is the entry looked up under it, and reading \<open>.routes\<close> of that is a \<open>TypeError\<close>.
  \<open>find\<close> returns the first element that satisfies the test.
\<close>

definition setupStream :: "'app AppState \<Rightarrow> StreamItem option \<Rightarrow> 'app AppState outcome" where
  "setupStream st created =
     (case created of
        None \<Rightarrow> (st, [ConsoleInfo ''createdStream''], Some TypeError)
      | Some createdStream \<Rightarrow>
          (let sid = item_id createdStream in
           case map fst (routes createdStream) of
             [] \<Rightarrow> (st, [ConsoleInfo ''createdStream''], Some TypeError)
           | serverIP # _ \<Rightarrow>
               (case map_of (routes createdStream) serverIP of
                  None \<Rightarrow> (st, [ConsoleInfo ''createdStream''], Some TypeError)
                | Some entry \<Rightarrow>
                    (let routeData = entry_routes entry;
                         signalingData = find (\<lambda>item. description item = ''signaling'') routeData;
                         mediaData = find (\<lambda>item. description item = ''media'') routeData
                     in case signalingData of
                          None \<Rightarrow>
                            (st, [ConsoleInfo ''createdStream'',
                                  ConsoleError ''Signaling or media data is missing''], None)
                        | Some sg \<Rightarrow>
                            (case mediaData of
                               None \<Rightarrow>
                                 (st, [ConsoleInfo ''createdStream'',
                                       ConsoleError ''Signaling or media data is missing''], None)
                             | Some md \<Rightarrow>
                                 (st\<lparr> backendUrl := streamServer st @ ''/streaming/stream'',
                                      signalingserver := serverIP,
                                      signalingport := source_port sg,
                                      mediaserver := serverIP,
                                      mediaport := source_port md,
                                      accessToken := [],
                                      sessionId := sid,
                                      currentForm := Stream,
                                      streamStatus := INITIALIZED \<rparr>,
                                  [ConsoleInfo ''createdStream''], None))))))"

subsection \<open>\<open>pollForSessionReady\<close>\<close>

text \<open>
  The method runs up to its \<open>await\<close> (\<open>pollForSessionReady_request\<close>) and resumes when
  the promise settles (\<open>pollForSessionReady_resume\<close>): \<open>reply\<close> is what it settles to,
  \<open>now\<close> the text of \<open>new Date().toLocaleTimeString()\<close>, and the state is the one the
  component has at that moment.  The \<open>catch\<close> block takes a rejected request and also an
  exception of \<open>setupStream\<close>.
\<close>

definition pollForSessionReady_request :: "'app AppState \<Rightarrow> string \<Rightarrow> effect list" where
  "pollForSessionReady_request st sid =
     [ConsoleInfo ''polling for session'', GetStreamingSessionInfo (streamServer st) sid]"

definition pollForSessionReady_resume ::
  "'app AppState \<Rightarrow> string \<Rightarrow> Response settled \<Rightarrow> string \<Rightarrow> 'app AppState outcome" where
  "pollForSessionReady_resume st sid reply now =
     (case reply of
        Rejected \<Rightarrow> (st, [ConsoleError ''Error polling session info:''], None)
      | Fulfilled response \<Rightarrow>
          if status response = 200 then
            (case setupStream st (data response) of
               (st', es, None) \<Rightarrow>
                 (st', [ConsoleInfo ''Session is ready. Waiting before setup...'',
                        ConsoleInfo ''Delay complete. Setting up stream...''] @ es, None)
             | (st', es, Some x) \<Rightarrow>
                 (st', [ConsoleInfo ''Session is ready. Waiting before setup...'',
                        ConsoleInfo ''Delay complete. Setting up stream...''] @ es
                       @ [ConsoleError ''Error polling session info:''], None))
          else
            (st, [SetTimeout (PollForSessionReady sid) 10000,
                  ConsoleLog (''Waiting for session '' @ sid
                              @ '' to be ready... Last checked at '' @ now)], None))"

definition pollForSessionReady ::
  "'app AppState \<Rightarrow> string \<Rightarrow> Response settled \<Rightarrow> string \<Rightarrow> 'app AppState outcome" where
  "pollForSessionReady st sid reply now =
     (case pollForSessionReady_resume st sid reply now of
        (st', es, x) \<Rightarrow> (st', pollForSessionReady_request st sid @ es, x))"

subsection \<open>\<open>_startStream\<close>\<close>

text \<open>
  \<open>created\<close> is what \<open>createStreamingSession\<close> settles to.  On status 202 the method
  calls \<open>pollForSessionReady\<close> without awaiting it, so it returns with that request
  issued and unanswered.
\<close>

definition startStream ::
  "StreamConfig \<Rightarrow> 'app AppState \<Rightarrow> string \<Rightarrow> string \<Rightarrow> string \<Rightarrow> Response settled
     \<Rightarrow> 'app AppState outcome" where
  "startStream cfg st appId version profile created =
     (let st1 = st\<lparr> currentForm := Forms_IDLE, selectedApplicationProfile := profile \<rparr>;
          e1 = [ConsoleLog (''Creating Session for '' @ appId @ '' '' @ version
                            @ ''. Errors are expected as the stream updates.'')];
          st2 = st1\<lparr> connectionText := ''Attempting to create streaming session...'' \<rparr>;
          e2 = e1 @ [CreateStreamingSession (streamServer st2) appId version profile]
      in case created of
           Rejected \<Rightarrow> (st2, e2, Some Rejection)
         | Fulfilled createdStreamResponse \<Rightarrow>
             if status createdStreamResponse > 400 then
               (let msg = ''Failed to create a new streaming session for '' @ appId @ '' ''
                          @ version @ ''. Error code ''
                          @ number_text (status createdStreamResponse)
                in (resetState cfg st2, e2 @ [ConsoleLog msg, Alert msg], None))
             else
               (case data createdStreamResponse of
                  None \<Rightarrow> (st2, e2, Some TypeError)
                | Some item \<Rightarrow>
                    (let st3 = st2\<lparr> sessionId := item_id item,
                                     streamStatus := INITIALIZING,
                                     connectionText := ''Attempting to load stream...'' \<rparr>
                     in if status createdStreamResponse = 202 then
                          (st3, e2 @ pollForSessionReady_request st3 (item_id item), None)
                        else
                          (case setupStream st3 (Some item) of
                             (st4, es, x) \<Rightarrow> (st4, e2 @ es, x)))))"

subsection \<open>\<open>_endStream\<close> and \<open>_resetStream\<close>\<close>

text \<open>
  \<open>info\<close> and \<open>destroyed\<close> are what the two backend requests settle to, when they are
  issued.  The empty string is the only falsy session id.
\<close>

definition endStream ::
  "'app AppState \<Rightarrow> Response settled \<Rightarrow> DestroyResponse settled \<Rightarrow> 'app AppState outcome" where
  "endStream st info destroyed =
     (let sid = sessionId st in
      if sid = [] then (st, [], None)
      else
        (case info of
           Rejected \<Rightarrow> (st, [GetStreamingSessionInfo (streamServer st) sid], Some Rejection)
         | Fulfilled response \<Rightarrow>
             if status response \<noteq> 200 then
               (st, [GetStreamingSessionInfo (streamServer st) sid], None)
             else
               (case destroyed of
                  Rejected \<Rightarrow>
                    (st, [GetStreamingSessionInfo (streamServer st) sid,
                          DestroyStreamingSession (streamServer st) sid], Some Rejection)
                | Fulfilled destroyResponse \<Rightarrow>
                    (case detail destroyResponse of
                       Some d \<Rightarrow>
                         (st, [GetStreamingSessionInfo (streamServer st) sid,
                               DestroyStreamingSession (streamServer st) sid,
                               Alert d], None)
                     | None \<Rightarrow>
                         (st, [GetStreamingSessionInfo (streamServer st) sid,
                               DestroyStreamingSession (streamServer st) sid,
                               ConsoleInfo (''Streaming Session '' @ sid @ '' Destroyed'')],
                          None)))))"

definition resetStream ::
  "StreamConfig \<Rightarrow> 'app AppState \<Rightarrow> Response settled \<Rightarrow> DestroyResponse settled
     \<Rightarrow> 'app AppState outcome" where
  "resetStream cfg st info destroyed =
     (case endStream st info destroyed of
        (st1, es, Some x) \<Rightarrow> (st1, es, Some x)
      | (st1, es, None) \<Rightarrow> (resetState cfg st1, es @ [Terminate], None))"

text \<open>
  Two calls of \<open>_resetStream\<close> in a row, with no session created in between.  The second
  call reads \<open>this.state\<close>: that is the state the first call left when React has applied
  the first call's \<open>_resetState\<close> by then (\<open>applied\<close>), and otherwise still the state the
  first call was made in.
\<close>

definition resetStream_twice ::
  "StreamConfig \<Rightarrow> 'app AppState \<Rightarrow> bool
     \<Rightarrow> Response settled \<Rightarrow> DestroyResponse settled
     \<Rightarrow> Response settled \<Rightarrow> DestroyResponse settled
     \<Rightarrow> 'app AppState outcome \<times> 'app AppState outcome" where
  "resetStream_twice cfg st applied info destroyed info' destroyed' =
     (case resetStream cfg st info destroyed of
        (st1, es1, x1) \<Rightarrow>
          ((st1, es1, x1),
           resetStream cfg (if applied then st1 else st) info' destroyed'))"

subsection \<open>The timer loop of the session poll\<close>

text \<open>
  The runtime fires a timer that \<open>pollForSessionReady\<close> has set and the callback issues
  the next request; \<open>polls\<close> lists what the successive requests settle to, one entry
  per request, together with the clock text of that moment.  The chain rests when the
  last resumption set no timer, or when the list is used up (the request is unanswered).
\<close>

fun pollChain :: "'app AppState \<Rightarrow> string \<Rightarrow> (Response settled \<times> string) list \<Rightarrow> 'app AppState outcome"
where
  "pollChain st sid [] = (st, [], None)"
| "pollChain st sid ((reply, now) # rest) =
     (case pollForSessionReady_resume st sid reply now of
        (st1, es1, x1) \<Rightarrow>
          (case timers es1 of
             (PollForSessionReady sid', d) # _ \<Rightarrow>
               (case pollChain st1 sid' rest of
                  (st2, es2, x2) \<Rightarrow>
                    (st2, es1 @ pollForSessionReady_request st1 sid' @ es2, x2))
           | _ \<Rightarrow> (st1, es1, x1)))"

text \<open>
  A whole start of a session: \<open>_startStream\<close>, then the poll chain when it returned
  with a session-info request unanswered.
\<close>

definition awaiting_poll :: "effect list \<Rightarrow> string option" where
  "awaiting_poll es =
     (case rev es of GetStreamingSessionInfo srv sid # _ \<Rightarrow> Some sid | _ \<Rightarrow> None)"

definition startSession ::
  "StreamConfig \<Rightarrow> 'app AppState \<Rightarrow> string \<Rightarrow> string \<Rightarrow> string \<Rightarrow> Response settled
     \<Rightarrow> (Response settled \<times> string) list \<Rightarrow> 'app AppState outcome" where
  "startSession cfg st appId version profile created polls =
     (case startStream cfg st appId version profile created of
        (st1, es1, Some x) \<Rightarrow> (st1, es1, Some x)
      | (st1, es1, None) \<Rightarrow>
          (case awaiting_poll es1 of
             None \<Rightarrow> (st1, es1, None)
           | Some sid \<Rightarrow>
               (case pollChain st1 sid polls of
                  (st2, es2, x2) \<Rightarrow> (st2, es1 @ es2, x2))))"

text \<open>How often \<open>setupStream\<close> was entered: its first statement logs \<open>createdStream\<close>.\<close>

definition setupStream_calls :: "effect list \<Rightarrow> nat" where
  "setupStream_calls es = length (filter (\<lambda>e. e = ConsoleInfo ''createdStream'') es)"

section \<open>Remote-application event dispatcher (\<open>src/unnamed/part_000\<close>)\<close>

subsection \<open>Data\<close>

text \<open>The component state (\<open>AppState\<close> in that file).\<close>

record WindowState =
  isKitReady :: bool
  showStream :: bool
  showUI :: bool
  isLoading :: bool
  loadingText :: string

text \<open>
  An inbound event is untyped.  The handler reads \<open>event_type\<close>, \<open>payload.result\<close>,
  \<open>payload.url\<close>, \<open>messageRecipient\<close> and \<open>data\<close>; a property that is absent is \<open>None\<close>.
  \<open>event_type\<close> is a string when present, as \<open>AppStreamMessageType\<close> declares it.
  \<open>JSON.parse\<close> belongs to the language, not to the sources: the \<open>data\<close> property is
  kept as what \<open>JSON.parse\<close> makes of it, which is a \<open>SyntaxError\<close> for an absent
  property and for text that is not JSON, \<open>null\<close>, or a value whose \<open>event_type\<close>
  property is read next.
\<close>

record Payload =
  result :: "string option"
  url :: "string option"

datatype parsed = NotJSON | JSONNull | JSONValue "string option"

record CustomEvent =
  event_type :: "string option"
  payload :: "Payload option"
  messageRecipient :: "string option"
  data_parsed :: parsed

subsection \<open>Constructor\<close>

definition Window_constructor :: "StreamConfig \<Rightarrow> WindowState" where
  "Window_constructor cfg =
     \<lparr> isKitReady = False,
       showStream = True,
       showUI = False,
       isLoading = (if cfg_source cfg = ''stream'' then True else False),
       loadingText =
         (if cfg_source cfg = ''gfn'' then ''Log in to GeForce NOW to view stream''
          else if cfg_source cfg = ''stream'' then ''Waiting for stream to initialize''
          else ''Waiting for stream to begin'') \<rparr>"

subsection \<open>Outbound query and the proof-of-life poll\<close>

text \<open>The text is \<open>JSON.stringify\<close> of the message object.\<close>

definition loadingStateQuery :: string where
  "loadingStateQuery = ''{\"event_type\":\"loadingStateQuery\",\"payload\":{}}''"

definition queryLoadingState :: "effect list" where
  "queryLoadingState = [SendMessage loadingStateQuery]"

definition pollForKitReady :: "WindowState \<Rightarrow> WindowState \<times> effect list" where
  "pollForKitReady st =
     (if isKitReady st = True then (st, [])
      else (st, [ConsoleInfo ''polling Kit availability''] @ queryLoadingState
                @ [SetTimeout PollForKitReady 3000]))"

definition onStreamStarted :: "WindowState \<Rightarrow> WindowState \<times> effect list" where
  "onStreamStarted st = pollForKitReady st"

definition onLoggedIn :: "StreamConfig \<Rightarrow> WindowState \<Rightarrow> string \<Rightarrow> WindowState \<times> effect list"
where
  "onLoggedIn cfg st userId =
     (if cfg_source cfg = ''gfn'' then
        (st\<lparr> loadingText := ''Waiting for stream to begin'', isLoading := False \<rparr>,
         [ConsoleInfo (''Logged in to GeForce NOW as '' @ userId)])
      else (st, []))"

subsection \<open>\<open>_handleCustomEvent\<close>\<close>

text \<open>
  The handler reads \<open>this.state\<close> (\<open>seen\<close>) and queues its update on top of the updates
  queued before (\<open>queued\<close> is \<open>this.state\<close> with all of them applied); the state it returns
  is \<open>queued\<close> with its own update applied.  \<open>None\<close> is a falsy event.  \<open>dispatch_tag\<close> is
  the \<open>if\<close>/\<open>else if\<close> chain over \<open>event_type\<close>; reading \<open>payload.result\<close> of an absent
  payload is a \<open>TypeError\<close>.  \<open>kit_recipient\<close> is the last statement of the handler,
  reached when the chain did not throw.
\<close>

definition dispatch_tag ::
  "WindowState \<Rightarrow> WindowState \<Rightarrow> CustomEvent \<Rightarrow> WindowState outcome" where
  "dispatch_tag seen queued event =
     (if event_type event = Some ''openedStageResult'' then
        (case payload event of
           None \<Rightarrow> (queued, [], Some TypeError)
         | Some p \<Rightarrow>
             if result p = Some ''success'' then (queued, queryLoadingState, None)
             else (queued, [ConsoleError (''Kit App communicates there was an error loading: ''
                                          @ js_string (url p))], None))
      else if event_type event = Some ''loadingStateResponse'' then
        (if isKitReady seen = False then
           (queued\<lparr> isKitReady := True \<rparr>,
            [ConsoleInfo ''Kit is ready to load assets''] @ queryLoadingState, None)
         else (queued, [], None))
      else if event_type event = Some ''updateProgressAmount'' then
        (queued, [ConsoleLog ''Kit App communicates progress amount.''], None)
      else if event_type event = Some ''updateProgressActivity'' then
        (if loadingText seen \<noteq> ''Loading Asset...'' then
           (queued\<lparr> loadingText := ''Loading Asset...'', isLoading := True \<rparr>,
            [ConsoleLog ''Kit App communicates progress activity.''], None)
         else (queued, [ConsoleLog ''Kit App communicates progress activity.''], None))
      else (queued, [], None))"

definition kit_recipient :: "CustomEvent \<Rightarrow> effect list \<times> exn option" where
  "kit_recipient event =
     (if messageRecipient event = Some ''kit'' then
        (case data_parsed event of
           NotJSON \<Rightarrow> ([ConsoleLog ''onCustomEvent''], Some SyntaxError)
         | JSONNull \<Rightarrow> ([ConsoleLog ''onCustomEvent''], Some TypeError)
         | JSONValue t \<Rightarrow> ([ConsoleLog ''onCustomEvent'', ConsoleLog (js_string t)], None))
      else ([], None))"

definition handleCustomEvent ::
  "WindowState \<Rightarrow> WindowState \<Rightarrow> CustomEvent option \<Rightarrow> WindowState outcome" where
  "handleCustomEvent seen queued ev =
     (case ev of
        None \<Rightarrow> (queued, [], None)
      | Some event \<Rightarrow>
          (case dispatch_tag seen queued event of
             (q1, es1, Some x) \<Rightarrow> (q1, es1, Some x)
           | (q1, es1, None) \<Rightarrow>
               (case kit_recipient event of (es2, x2) \<Rightarrow> (q1, es1 @ es2, x2))))"

subsection \<open>Delivery of a sequence of callbacks\<close>

text \<open>
  The transport adapter and the timers call the component one callback at a time, and
  each runs to completion.  Between two callbacks React may or may not have applied the
  queued updates: \<open>Flush\<close> is the moment it does, and \<open>this.state\<close> becomes the queued
  state.  The component is the pair of \<open>this.state\<close> and the queued state.  A callback
  reads the first and writes the second: \<open>_onStreamStarted\<close> and \<open>_pollForKitReady\<close> only
  read, \<open>_onLoggedIn\<close> only writes.  An exception ends the callback it is thrown in;
  \<open>Timer\<close> is the firing of a timer set by \<open>_pollForKitReady\<close>.
\<close>

datatype callback =
    Started
  | Timer
  | LoggedIn string
  | Custom "CustomEvent option"

datatype step = Call callback | Flush

fun invoke ::
  "StreamConfig \<Rightarrow> WindowState \<Rightarrow> WindowState \<Rightarrow> callback \<Rightarrow> WindowState outcome" where
  "invoke cfg seen queued Started = (queued, snd (onStreamStarted seen), None)"
| "invoke cfg seen queued Timer = (queued, snd (pollForKitReady seen), None)"
| "invoke cfg seen queued (LoggedIn userId) =
     (case onLoggedIn cfg queued userId of (q', es) \<Rightarrow> (q', es, None))"
| "invoke cfg seen queued (Custom ev) = handleCustomEvent seen queued ev"

fun deliver ::
  "StreamConfig \<Rightarrow> WindowState \<times> WindowState \<Rightarrow> step list
     \<Rightarrow> (WindowState \<times> WindowState) \<times> effect list" where
  "deliver cfg (seen, queued) [] = ((seen, queued), [])"
| "deliver cfg (seen, queued) (Flush # ss) = deliver cfg (queued, queued) ss"
| "deliver cfg (seen, queued) (Call c # ss) =
     (case invoke cfg seen queued c of
        (q', es, x) \<Rightarrow>
          (case deliver cfg (seen, q') ss of (w, es') \<Rightarrow> (w, es @ es')))"

text \<open>
  The poll chain by itself, on a clock: the poll runs at time \<open>t\<close>; when it set a timer
  with delay \<open>d\<close> the next poll runs at \<open>t + d\<close>, for \<open>n\<close> firings.  Each effect is
  paired with the time it happens at.
\<close>

fun kitPollChain :: "nat \<Rightarrow> nat \<Rightarrow> WindowState \<Rightarrow> (nat \<times> effect) list" where
  "kitPollChain t 0 st = map (Pair t) (snd (pollForKitReady st))"
| "kitPollChain t (Suc n) st =
     (case pollForKitReady st of
        (st', es) \<Rightarrow>
          map (Pair t) es @
          (case timers es of
             (PollForKitReady, d) # _ \<Rightarrow> kitPollChain (t + d) n st'
           | _ \<Rightarrow> []))"


text \<open>The times at which a timed trace sends a message.\<close>

fun send_times :: "(nat \<times> effect) list \<Rightarrow> nat list" where
  "send_times [] = []"
| "send_times ((t, SendMessage m) # es) = t # send_times es"
| "send_times (e # es) = send_times es"

section \<open>Concrete inputs\<close>

definition example_config :: StreamConfig where
  "example_config =
     \<lparr> cfg_streamServer = ''http://srv'', cfg_appServer = ''http://app'',
       cfg_source = ''local'' \<rparr>"

text \<open>A ready session: one host with a signaling and a media route.\<close>

definition example_item :: StreamItem where
  "example_item =
     \<lparr> item_id = ''s1'',
       routes = [(''10.0.0.1'',
                  \<lparr> entry_routes = [\<lparr> description = ''signaling'', source_port = 31000 \<rparr>,
                                     \<lparr> description = ''media'', source_port = 31001 \<rparr>] \<rparr>)] \<rparr>"

text \<open>The descriptor of a session that was accepted and is not ready: no routes yet.\<close>

definition pending_item :: StreamItem where
  "pending_item = \<lparr> item_id = ''s1'', routes = [] \<rparr>"

text \<open>The controller after \<open>_startStream\<close> got status 202 for session \<open>s1\<close>.\<close>

definition awaiting_state :: "unit AppState" where
  "awaiting_state =
     (App_constructor example_config)
       \<lparr> currentForm := Forms_IDLE, selectedApplicationProfile := ''default'',
         connectionText := ''Attempting to load stream...'',
         sessionId := ''s1'', streamStatus := INITIALIZING \<rparr>"

text \<open>The controller streaming session \<open>s1\<close>.\<close>

definition streaming_state :: "unit AppState" where
  "streaming_state =
     awaiting_state
       \<lparr> backendUrl := ''http://srv/streaming/stream'',
         signalingserver := ''10.0.0.1'', signalingport := 31000,
         mediaserver := ''10.0.0.1'', mediaport := 31001,
         currentForm := Stream, streamStatus := INITIALIZED \<rparr>"

text \<open>A descriptor whose first host has a signaling route and no media route.\<close>

definition lone_signaling_item :: StreamItem where
  "lone_signaling_item =
     \<lparr> item_id = ''s1'',
       routes = [(''10.0.0.1'',
                  \<lparr> entry_routes = [\<lparr> description = ''signaling'', source_port = 31000 \<rparr>] \<rparr>)] \<rparr>"

text \<open>Inbound events: a proof-of-life response, a failed stage load, two events with a tag
  the handler does not know, the second addressed to \<open>kit\<close> with no \<open>data\<close> property.\<close>

definition loadingStateResponse_event :: CustomEvent where
  "loadingStateResponse_event =
     \<lparr> event_type = Some ''loadingStateResponse'', payload = Some \<lparr> result = None, url = None \<rparr>,
       messageRecipient = None, data_parsed = NotJSON \<rparr>"

definition failed_open_event :: CustomEvent where
  "failed_open_event =
     \<lparr> event_type = Some ''openedStageResult'',
       payload = Some \<lparr> result = Some ''error'', url = Some ''stage.usd'' \<rparr>,
       messageRecipient = None, data_parsed = NotJSON \<rparr>"

definition unknown_event :: CustomEvent where
  "unknown_event =
     \<lparr> event_type = Some ''stageSelectionChanged'', payload = None,
       messageRecipient = None, data_parsed = NotJSON \<rparr>"

definition unknown_kit_event :: CustomEvent where
  "unknown_kit_event =
     \<lparr> event_type = Some ''stageSelectionChanged'', payload = None,
       messageRecipient = Some ''kit'', data_parsed = NotJSON \<rparr>"

section \<open>Properties of the session lifecycle controller\<close>

subsection \<open>Creation failures\<close>

lemma resetState_constructor: "resetState cfg st = App_constructor cfg"
  by (simp add: resetState_def App_constructor_def)

text \<open>
  For a status above 400 the controller logs and alerts the failure once, resets the
  state to that of the constructor and neither stores a session id nor enters
  \<open>setupStream\<close>.
\<close>

lemma startStream_error_status:
  assumes "status r > 400"
  shows "startStream cfg st appId version profile (Fulfilled r) =
           (App_constructor cfg,
            [ConsoleLog (''Creating Session for '' @ appId @ '' '' @ version
                         @ ''. Errors are expected as the stream updates.''),
             CreateStreamingSession (streamServer st) appId version profile,
             ConsoleLog (''Failed to create a new streaming session for '' @ appId @ '' ''
                         @ version @ ''. Error code '' @ number_text (status r)),
             Alert (''Failed to create a new streaming session for '' @ appId @ '' ''
                    @ version @ ''. Error code '' @ number_text (status r))],
            None)"
  using assms by (simp add: startStream_def resetState_constructor Let_def)

lemma setupStream_no_alert: "alerts (fst (snd (setupStream st d))) = []"
  by (simp add: setupStream_def Let_def split: option.splits list.splits)

lemma setupStream_form:
  "currentForm (fst (setupStream st d)) = currentForm st
   \<or> currentForm (fst (setupStream st d)) = Stream"
  by (simp add: setupStream_def Let_def split: option.splits list.splits)

text \<open>
  Status 400 itself does not take the failure branch (the test is \<open>status > 400\<close>):
  whatever the body, nothing is alerted and the state is not reset.
\<close>

lemma startStream_status_400_any_body:
  assumes "status r = 400"
  shows "alerts (fst (snd (startStream cfg st appId version profile (Fulfilled r)))) = [] \<and>
         currentForm (fst (startStream cfg st appId version profile (Fulfilled r))) \<noteq> AppOnly"
proof (cases "data r")
  case None
  with assms show ?thesis
    by (simp add: startStream_def Let_def)
next
  case (Some item)
  define st3 where "st3 = st\<lparr> currentForm := Forms_IDLE, selectedApplicationProfile := profile,
       connectionText := ''Attempting to create streaming session...'',
       sessionId := item_id item, streamStatus := INITIALIZING,
       connectionText := ''Attempting to load stream...'' \<rparr>"
  obtain st4 es x where s: "setupStream st3 (Some item) = (st4, es, x)"
    by (cases "setupStream st3 (Some item)") auto
  have a: "alerts es = []"
    using setupStream_no_alert [of st3 "Some item"] s by simp
  have f: "currentForm st4 \<noteq> AppOnly"
    using setupStream_form [of st3 "Some item"] s by (auto simp: st3_def)
  from assms Some s a f show ?thesis
    by (simp add: startStream_def Let_def st3_def)
qed

text \<open>
  C1.  Claimed: for every session-creation response with status at least 400,
  \<open>_startStream\<close> resets the controller, surfaces the failure once and attempts no route
  resolution.  At status 400 with a session descriptor as body the code stores the
  session id, enters \<open>setupStream\<close> and ends in the streaming form, with no alert.
\<close>

theorem startStream_status_400:
  "startStream example_config (App_constructor example_config :: unit AppState)
       ''usd_viewer'' ''1.0'' ''default''
       (Fulfilled \<lparr> status = 400, data = Some example_item \<rparr>) =
     (\<lparr> currentForm = Stream, useWebUI = True, streamServer = ''http://srv'',
        appServer = ''http://app'', applications = [],
        applicationVersions = [], applicationProfiles = [],
        selectedApplicationId = [], selectedApplicationVersion = [],
        selectedApplicationProfile = ''default'', streamStatus = INITIALIZED,
        connectionText = ''Attempting to load stream...'',
        backendUrl = ''http://srv/streaming/stream'',
        signalingserver = ''10.0.0.1'', signalingport = 31000,
        mediaserver = ''10.0.0.1'', mediaport = 31001, accessToken = [],
        sessionId = ''s1'' \<rparr>,
      [ConsoleLog
         ''Creating Session for usd_viewer 1.0. Errors are expected as the stream updates.'',
       CreateStreamingSession ''http://srv'' ''usd_viewer'' ''1.0'' ''default'',
       ConsoleInfo ''createdStream''],
      None)"
  by (simp add: startStream_def setupStream_def App_constructor_def example_config_def
      example_item_def Let_def)

subsection \<open>The session poll and teardown\<close>

lemma setupStream_no_timer: "timers (fst (snd (setupStream st d))) = []"
  by (simp add: setupStream_def Let_def split: option.splits list.splits)

lemma timers_append: "timers (xs @ ys) = timers xs @ timers ys"
  by (induction xs rule: timers.induct) simp_all

text \<open>
  C2, as the code has it.  \<open>pollForSessionReady\<close> never reads the lifecycle part of the
  controller state: in every state, whether a poll sets a further timer is decided by the
  reply alone.  It sets one (after 10000 ms, for the same session id) for every reply whose
  status is not 200 and leaves the state as it is; it sets none for status 200, where it
  goes on to \<open>setupStream\<close>, and none when the request is rejected.
\<close>

theorem pollForSessionReady_reschedule:
  "timers (fst (snd (pollForSessionReady st sid reply now))) =
     (case reply of
        Rejected \<Rightarrow> []
      | Fulfilled r \<Rightarrow> if status r = 200 then [] else [(PollForSessionReady sid, 10000)])
   \<and> (case reply of
        Rejected \<Rightarrow> fst (pollForSessionReady st sid reply now) = st
      | Fulfilled r \<Rightarrow>
          if status r = 200 then fst (pollForSessionReady st sid reply now)
                                 = fst (setupStream st (data r))
          else fst (pollForSessionReady st sid reply now) = st)"
proof (cases reply)
  case Rejected
  then show ?thesis
    by (simp add: pollForSessionReady_def pollForSessionReady_resume_def
        pollForSessionReady_request_def)
next
  case (Fulfilled r)
  show ?thesis
  proof (cases "status r = 200")
    case False
    with Fulfilled show ?thesis
      by (simp add: pollForSessionReady_def pollForSessionReady_resume_def
          pollForSessionReady_request_def)
  next
    case True
    obtain st' es x where s: "setupStream st (data r) = (st', es, x)"
      by (cases "setupStream st (data r)") auto
    have "timers es = []"
      using setupStream_no_timer [of st "data r"] s by simp
    with Fulfilled True s show ?thesis
      by (cases x) (simp_all add: pollForSessionReady_def pollForSessionReady_resume_def
          pollForSessionReady_request_def timers_append)
  qed
qed

text \<open>
  C2, as claimed, fails.  Session \<open>s1\<close> is accepted with status 202; the first poll is
  answered 202 and sets a retry timer; \<open>_resetStream\<close> then tears the session down and
  leaves the constructor state; the pending timer fires, the poll is answered 404 and
  sets the next retry timer.
\<close>

theorem retry_after_teardown_counterexample:
  "startStream example_config (App_constructor example_config :: unit AppState)
       ''usd_viewer'' ''1.0'' ''default''
       (Fulfilled \<lparr> status = 202, data = Some pending_item \<rparr>)
     = (awaiting_state,
        [ConsoleLog
           ''Creating Session for usd_viewer 1.0. Errors are expected as the stream updates.'',
         CreateStreamingSession ''http://srv'' ''usd_viewer'' ''1.0'' ''default'',
         ConsoleInfo ''polling for session'',
         GetStreamingSessionInfo ''http://srv'' ''s1''], None)
   \<and> pollForSessionReady_resume awaiting_state ''s1''
         (Fulfilled \<lparr> status = 202, data = Some pending_item \<rparr>) ''10:00:00''
     = (awaiting_state,
        [SetTimeout (PollForSessionReady ''s1'') 10000,
         ConsoleLog ''Waiting for session s1 to be ready... Last checked at 10:00:00''], None)
   \<and> resetStream example_config awaiting_state
         (Fulfilled \<lparr> status = 200, data = Some pending_item \<rparr>)
         (Fulfilled \<lparr> detail = None \<rparr>)
     = (App_constructor example_config,
        [GetStreamingSessionInfo ''http://srv'' ''s1'',
         DestroyStreamingSession ''http://srv'' ''s1'',
         ConsoleInfo ''Streaming Session s1 Destroyed'',
         Terminate], None)
   \<and> pollForSessionReady (App_constructor example_config :: unit AppState) ''s1''
         (Fulfilled \<lparr> status = 404, data = None \<rparr>) ''10:00:10''
     = (App_constructor example_config,
        [ConsoleInfo ''polling for session'',
         GetStreamingSessionInfo ''http://srv'' ''s1'',
         SetTimeout (PollForSessionReady ''s1'') 10000,
         ConsoleLog ''Waiting for session s1 to be ready... Last checked at 10:00:10''], None)"
  by (simp add: startStream_def pollForSessionReady_def pollForSessionReady_resume_def
      pollForSessionReady_request_def resetStream_def endStream_def resetState_constructor
      awaiting_state_def pending_item_def example_config_def App_constructor_def Let_def)

text \<open>
  When a session is held and both backend requests of \<open>_endStream\<close> are answered (the
  session-info query with any status, the destroy call with or without an error detail),
  \<open>_resetStream\<close> returns normally, leaves the constructor state, and its last effect is
  the one call of \<open>AppStreamer.terminate\<close>.  An error detail of the destroy response is
  alerted, and nothing else is.
\<close>

lemma resetStream_releases:
  assumes "sessionId st \<noteq> []"
  shows "case resetStream cfg st (Fulfilled r) (Fulfilled d) of
           (st', es, x) \<Rightarrow>
             st' = App_constructor cfg \<and> x = None \<and> last es = Terminate
             \<and> length (filter (\<lambda>e. e = Terminate) es) = 1
             \<and> alerts es =
                 (if status r = 200 then (case detail d of Some m \<Rightarrow> [m] | None \<Rightarrow> [])
                  else [])"
  using assms
  by (simp add: resetStream_def endStream_def resetState_constructor Let_def
      split: option.splits)

text \<open>
  C3.  Claimed: whatever the outcome of the backend calls, \<open>_resetStream\<close> on a held
  session resets the state and releases the adapter as its last step.
  \<open>_resetStream\<close> awaits \<open>_endStream\<close> outside any \<open>try\<close>: when the session-info query is
  rejected, or the destroy call after a query answered 200, the rejection leaves
  \<open>_resetStream\<close> before \<open>_resetState\<close> and \<open>AppStreamer.terminate\<close>.  The session id stays
  held, the form stays \<open>Stream\<close>, and the adapter is not released.
\<close>

theorem resetStream_rejected_request:
  "resetStream example_config streaming_state Rejected Rejected
     = (streaming_state, [GetStreamingSessionInfo ''http://srv'' ''s1''], Some Rejection)
   \<and> resetStream example_config streaming_state
       (Fulfilled \<lparr> status = 200, data = Some example_item \<rparr>) Rejected
     = (streaming_state,
        [GetStreamingSessionInfo ''http://srv'' ''s1'',
         DestroyStreamingSession ''http://srv'' ''s1''], Some Rejection)
   \<and> sessionId streaming_state = ''s1'' \<and> currentForm streaming_state = Stream"
  by (simp add: resetStream_def endStream_def streaming_state_def awaiting_state_def
      example_config_def App_constructor_def Let_def)

subsection \<open>Route resolution\<close>

text \<open>
  A route list contains a route with a given description exactly when \<open>find\<close> selects
  one, and the selected route is the first of them.
\<close>

lemma find_description:
  "(\<exists>r \<in> set rs. description r = d)
     = (\<exists>sg. find (\<lambda>r. description r = d) rs = Some sg \<and> sg \<in> set rs \<and> description sg = d)"
proof (induction rs)
  case Nil
  then show ?case by simp
next
  case (Cons r rs)
  then show ?case by (cases "description r = d") auto
qed

lemma setupStream_resolved:
  assumes "routes item = (host, entry) # others"
    and "find (\<lambda>r. description r = ''signaling'') (entry_routes entry) = Some sg"
    and "find (\<lambda>r. description r = ''media'') (entry_routes entry) = Some md"
  shows "setupStream st (Some item) =
           (st\<lparr> backendUrl := streamServer st @ ''/streaming/stream'',
                signalingserver := host,
                signalingport := source_port sg,
                mediaserver := host,
                mediaport := source_port md,
                accessToken := [],
                sessionId := item_id item,
                currentForm := Stream,
                streamStatus := INITIALIZED \<rparr>,
            [ConsoleInfo ''createdStream''], None)"
  using assms by (simp add: setupStream_def Let_def)

text \<open>A poll answered with a status other than 200 leaves the chain to the next reply.\<close>

lemma pollChain_wait:
  assumes "status r \<noteq> 200"
  shows "pollChain st sid ((Fulfilled r, now) # rest) =
           (case pollChain st sid rest of
              (st2, es2, x2) \<Rightarrow>
                (st2,
                 [SetTimeout (PollForSessionReady sid) 10000,
                  ConsoleLog (''Waiting for session '' @ sid
                              @ '' to be ready... Last checked at '' @ now),
                  ConsoleInfo ''polling for session'',
                  GetStreamingSessionInfo (streamServer st) sid] @ es2, x2))"
  using assms
  by (simp add: pollForSessionReady_resume_def pollForSessionReady_request_def
      split: prod.splits)

lemma pollChain_waits:
  assumes "\<forall>w \<in> set waits. status (fst w) \<noteq> 200"
  shows "fst (pollChain st sid (map (\<lambda>w. (Fulfilled (fst w), snd w)) waits @ rest))
           = fst (pollChain st sid rest)
       \<and> setupStream_calls (fst (snd (pollChain st sid
              (map (\<lambda>w. (Fulfilled (fst w), snd w)) waits @ rest))))
           = setupStream_calls (fst (snd (pollChain st sid rest)))
       \<and> snd (snd (pollChain st sid (map (\<lambda>w. (Fulfilled (fst w), snd w)) waits @ rest)))
           = snd (snd (pollChain st sid rest))"
  using assms
proof (induction waits)
  case Nil
  then show ?case by simp
next
  case (Cons w waits)
  let ?tail = "map (\<lambda>w. (Fulfilled (fst w), snd w)) waits @ rest"
  from Cons.prems have ne: "status (fst w) \<noteq> 200"
    and others: "\<forall>w \<in> set waits. status (fst w) \<noteq> 200"
    by simp_all
  obtain st2 es2 x2 where t: "pollChain st sid ?tail = (st2, es2, x2)"
    by (cases "pollChain st sid ?tail") auto
  have step: "pollChain st sid (map (\<lambda>w. (Fulfilled (fst w), snd w)) (w # waits) @ rest) =
      (st2,
       [SetTimeout (PollForSessionReady sid) 10000,
        ConsoleLog (''Waiting for session '' @ sid
                    @ '' to be ready... Last checked at '' @ snd w),
        ConsoleInfo ''polling for session'',
        GetStreamingSessionInfo (streamServer st) sid] @ es2, x2)"
    using pollChain_wait [OF ne, of st sid "snd w" ?tail] t
    by (simp del: pollChain.simps)
  from Cons.IH [OF others] t show ?case
    unfolding step by (simp add: setupStream_calls_def del: pollChain.simps)
qed

lemma pollChain_ready:
  assumes "setupStream st (Some item) = (st', es, None)"
  shows "pollChain st sid ((Fulfilled \<lparr> status = 200, data = Some item \<rparr>, now) # later) =
           (st', [ConsoleInfo ''Session is ready. Waiting before setup...'',
                  ConsoleInfo ''Delay complete. Setting up stream...''] @ es, None)"
proof -
  have "timers es = []"
    using setupStream_no_timer [of st "Some item"] assms by simp
  with assms show ?thesis
    by (simp add: pollForSessionReady_resume_def timers_append)
qed

text \<open>
  C4.  Let the descriptor \<open>item\<close> have \<open>host\<close> as the first host of its route mapping,
  and let \<open>sg\<close> and \<open>md\<close> be the routes that \<open>find\<close> selects in that host's route list
  for the descriptions \<open>signaling\<close> and \<open>media\<close>.  Whether \<open>item\<close> comes with create status
  200, or with status 200 of a poll after create status 202 and any number of polls
  answered with another status, \<open>setupStream\<close> is entered exactly once, the signaling and
  media host are \<open>host\<close>, the ports are the \<open>source_port\<close> of \<open>sg\<close> and of \<open>md\<close>, and the
  controller ends in \<open>Forms.Stream\<close> with \<open>StreamStatus.INITIALIZED\<close>.  Replies after the
  ready one (\<open>later\<close>) are never asked for.
\<close>

theorem setupStream_once_resolved:
  assumes "routes item = (host, entry) # others"
    and "find (\<lambda>r. description r = ''signaling'') (entry_routes entry) = Some sg"
    and "find (\<lambda>r. description r = ''media'') (entry_routes entry) = Some md"
    and "\<forall>w \<in> set waits. status (fst w) \<noteq> 200"
  shows "(case startStream cfg st appId version profile
                (Fulfilled \<lparr> status = 200, data = Some item \<rparr>) of
            (st', es, x) \<Rightarrow>
              x = None \<and> setupStream_calls es = 1
              \<and> signalingserver st' = host \<and> signalingport st' = source_port sg
              \<and> mediaserver st' = host \<and> mediaport st' = source_port md
              \<and> backendUrl st' = streamServer st @ ''/streaming/stream''
              \<and> accessToken st' = [] \<and> sessionId st' = item_id item
              \<and> currentForm st' = Stream \<and> streamStatus st' = INITIALIZED)
       \<and> (case startSession cfg st appId version profile
                (Fulfilled \<lparr> status = 202, data = Some accepted \<rparr>)
                (map (\<lambda>w. (Fulfilled (fst w), snd w)) waits
                 @ (Fulfilled \<lparr> status = 200, data = Some item \<rparr>, now) # later) of
            (st', es, x) \<Rightarrow>
              x = None \<and> setupStream_calls es = 1
              \<and> signalingserver st' = host \<and> signalingport st' = source_port sg
              \<and> mediaserver st' = host \<and> mediaport st' = source_port md
              \<and> backendUrl st' = streamServer st @ ''/streaming/stream''
              \<and> accessToken st' = [] \<and> sessionId st' = item_id item
              \<and> currentForm st' = Stream \<and> streamStatus st' = INITIALIZED)"
proof -
  define st3 where "st3 = st\<lparr> currentForm := Forms_IDLE, selectedApplicationProfile := profile,
       connectionText := ''Attempting to create streaming session...'',
       sessionId := item_id item, streamStatus := INITIALIZING,
       connectionText := ''Attempting to load stream...'' \<rparr>"
  define st3' where "st3' = st\<lparr> currentForm := Forms_IDLE, selectedApplicationProfile := profile,
       connectionText := ''Attempting to create streaming session...'',
       sessionId := item_id accepted, streamStatus := INITIALIZING,
       connectionText := ''Attempting to load stream...'' \<rparr>"
  note r = setupStream_resolved [OF assms(1-3)]
  have direct: "startStream cfg st appId version profile
                  (Fulfilled \<lparr> status = 200, data = Some item \<rparr>)
      = (st3\<lparr> backendUrl := streamServer st3 @ ''/streaming/stream'',
                signalingserver := host,
                signalingport := source_port sg,
                mediaserver := host,
                mediaport := source_port md,
                accessToken := [],
                sessionId := item_id item,
                currentForm := Stream,
                streamStatus := INITIALIZED \<rparr>,
         [ConsoleLog (''Creating Session for '' @ appId @ '' '' @ version
                            @ ''. Errors are expected as the stream updates.''),
          CreateStreamingSession (streamServer st) appId version profile,
          ConsoleInfo ''createdStream''], None)"
    by (simp add: startStream_def Let_def r st3_def)
  have start: "startStream cfg st appId version profile
                  (Fulfilled \<lparr> status = 202, data = Some accepted \<rparr>)
      = (st3',
         [ConsoleLog (''Creating Session for '' @ appId @ '' '' @ version
                            @ ''. Errors are expected as the stream updates.''),
          CreateStreamingSession (streamServer st) appId version profile,
          ConsoleInfo ''polling for session'',
          GetStreamingSessionInfo (streamServer st) (item_id accepted)], None)"
    by (simp add: startStream_def Let_def st3'_def pollForSessionReady_request_def)
  let ?polls = "map (\<lambda>w. (Fulfilled (fst w), snd w)) waits
                 @ (Fulfilled \<lparr> status = 200, data = Some item \<rparr>, now) # later"
  let ?rest = "(Fulfilled \<lparr> status = 200, data = Some item \<rparr>, now) # later"
  have ready: "pollChain st3' (item_id accepted) ?rest =
      (st3'\<lparr> backendUrl := streamServer st3' @ ''/streaming/stream'',
                signalingserver := host,
                signalingport := source_port sg,
                mediaserver := host,
                mediaport := source_port md,
                accessToken := [],
                sessionId := item_id item,
                currentForm := Stream,
                streamStatus := INITIALIZED \<rparr>,
       [ConsoleInfo ''Session is ready. Waiting before setup...'',
        ConsoleInfo ''Delay complete. Setting up stream...''] @ [ConsoleInfo ''createdStream''], None)"
    by (rule pollChain_ready) (rule r)
  obtain st2 es2 x2 where chain: "pollChain st3' (item_id accepted) ?polls = (st2, es2, x2)"
    by (cases "pollChain st3' (item_id accepted) ?polls") auto
  from pollChain_waits [OF assms(4), of st3' "item_id accepted" ?rest] chain ready
  have c: "st2 = st3'\<lparr> backendUrl := streamServer st3' @ ''/streaming/stream'',
                signalingserver := host,
                signalingport := source_port sg,
                mediaserver := host,
                mediaport := source_port md,
                accessToken := [],
                sessionId := item_id item,
                currentForm := Stream,
                streamStatus := INITIALIZED \<rparr>"
       "setupStream_calls es2 = 1" "x2 = None"
    by (simp_all add: setupStream_calls_def)
  have polled: "startSession cfg st appId version profile
                (Fulfilled \<lparr> status = 202, data = Some accepted \<rparr>) ?polls
           = (st2, [ConsoleLog (''Creating Session for '' @ appId @ '' '' @ version
                            @ ''. Errors are expected as the stream updates.''),
          CreateStreamingSession (streamServer st) appId version profile,
          ConsoleInfo ''polling for session'',
          GetStreamingSessionInfo (streamServer st) (item_id accepted)] @ es2, x2)"
    using c(3) by (simp add: startSession_def start awaiting_poll_def chain)
  show ?thesis
    unfolding direct polled using c
    by (simp add: setupStream_calls_def st3_def st3'_def)
qed


theorem setupStream_once_resolved_witness:
  "routes example_item =
     (''10.0.0.1'',
      \<lparr> entry_routes = [\<lparr> description = ''signaling'', source_port = 31000 \<rparr>,
                         \<lparr> description = ''media'', source_port = 31001 \<rparr>] \<rparr>) # []
   \<and> startStream example_config (App_constructor example_config :: unit AppState)
         ''usd_viewer'' ''1.0'' ''default''
         (Fulfilled \<lparr> status = 200, data = Some example_item \<rparr>)
       = (streaming_state,
          [ConsoleLog
             ''Creating Session for usd_viewer 1.0. Errors are expected as the stream updates.'',
           CreateStreamingSession ''http://srv'' ''usd_viewer'' ''1.0'' ''default'',
           ConsoleInfo ''createdStream''], None)
   \<and> (case startSession example_config (App_constructor example_config :: unit AppState)
              ''usd_viewer'' ''1.0'' ''default''
              (Fulfilled \<lparr> status = 202, data = Some pending_item \<rparr>)
              [(Fulfilled \<lparr> status = 202, data = Some pending_item \<rparr>, ''10:00:00''),
               (Fulfilled \<lparr> status = 200, data = Some example_item \<rparr>, ''10:00:10'')] of
          (st', es, x) \<Rightarrow>
            x = None \<and> setupStream_calls es = 1 \<and> st' = streaming_state)"
proof -
  have h1: "routes example_item =
     (''10.0.0.1'',
      \<lparr> entry_routes = [\<lparr> description = ''signaling'', source_port = 31000 \<rparr>,
                         \<lparr> description = ''media'', source_port = 31001 \<rparr>] \<rparr>) # []"
    by (simp add: example_item_def)
  have h2: "find (\<lambda>r. description r = ''signaling'')
              (entry_routes \<lparr> entry_routes = [\<lparr> description = ''signaling'', source_port = 31000 \<rparr>,
                         \<lparr> description = ''media'', source_port = 31001 \<rparr>] \<rparr>)
            = Some \<lparr> description = ''signaling'', source_port = 31000 \<rparr>"
    by simp
  have h3: "find (\<lambda>r. description r = ''media'')
              (entry_routes \<lparr> entry_routes = [\<lparr> description = ''signaling'', source_port = 31000 \<rparr>,
                         \<lparr> description = ''media'', source_port = 31001 \<rparr>] \<rparr>)
            = Some \<lparr> description = ''media'', source_port = 31001 \<rparr>"
    by simp
  have h4: "\<forall>w \<in> set [(\<lparr> status = 202, data = Some pending_item \<rparr>, ''10:00:00'')].
              status (fst w) \<noteq> 200"
    by simp
  from setupStream_once_resolved [OF h1 h2 h3 h4, where cfg = example_config
      and st = "App_constructor example_config :: unit AppState" and appId = "''usd_viewer''"
      and version = "''1.0''" and profile = "''default''" and accepted = pending_item
      and now = "''10:00:10''" and later = "[]"]
  show ?thesis
    by (simp add: startStream_def startSession_def awaiting_poll_def setupStream_def
        pollForSessionReady_resume_def pollForSessionReady_request_def setupStream_calls_def
        streaming_state_def awaiting_state_def example_item_def pending_item_def
        example_config_def App_constructor_def Let_def)
qed

text \<open>
  C5.  When the first host's route list has no route described \<open>signaling\<close>, or none
  described \<open>media\<close>, \<open>setupStream\<close> logs the failure and returns: the state is the one
  it was called in, so no connection parameter is set and the form is not \<open>Stream\<close>.
\<close>

theorem setupStream_missing_route:
  assumes "routes item = (host, entry) # others"
    and "(\<forall>r \<in> set (entry_routes entry). description r \<noteq> ''signaling'')
         \<or> (\<forall>r \<in> set (entry_routes entry). description r \<noteq> ''media'')"
  shows "setupStream st (Some item) =
           (st, [ConsoleInfo ''createdStream'',
                 ConsoleError ''Signaling or media data is missing''], None)"
proof -
  from assms(2)
  have "find (\<lambda>r. description r = ''signaling'') (entry_routes entry) = None
        \<or> find (\<lambda>r. description r = ''media'') (entry_routes entry) = None"
    by (auto simp: find_None_iff)
  with assms(1) show ?thesis
    by (auto simp: setupStream_def Let_def split: option.splits)
qed

theorem setupStream_missing_route_witness:
  "setupStream awaiting_state (Some lone_signaling_item) =
     (awaiting_state, [ConsoleInfo ''createdStream'',
                       ConsoleError ''Signaling or media data is missing''], None)
   \<and> currentForm awaiting_state = Forms_IDLE \<and> signalingport awaiting_state = 0"
proof -
  have h1: "routes lone_signaling_item =
      (''10.0.0.1'',
       \<lparr> entry_routes = [\<lparr> description = ''signaling'', source_port = 31000 \<rparr>] \<rparr>) # []"
    by (simp add: lone_signaling_item_def)
  have h2: "(\<forall>r \<in> set (entry_routes
                \<lparr> entry_routes = [\<lparr> description = ''signaling'', source_port = 31000 \<rparr>] \<rparr>).
               description r \<noteq> ''signaling'')
         \<or> (\<forall>r \<in> set (entry_routes
                \<lparr> entry_routes = [\<lparr> description = ''signaling'', source_port = 31000 \<rparr>] \<rparr>).
               description r \<noteq> ''media'')"
    by simp
  have unchanged: "currentForm awaiting_state = Forms_IDLE \<and> signalingport awaiting_state = 0"
    by (simp add: awaiting_state_def App_constructor_def)
  from setupStream_missing_route [OF h1 h2, of awaiting_state] unchanged
  show ?thesis
    by simp
qed

subsection \<open>Ending a session twice\<close>

text \<open>
  C6, as the code has it.  With no session id in \<open>this.state\<close>, \<open>_endStream\<close> does
  nothing, and \<open>_resetStream\<close> only resets and releases the adapter.  A call of
  \<open>_resetStream\<close> that returns normally has made at most one session-info query and,
  after it, at most one destroy call; when React has applied its \<open>_resetState\<close> before the
  next call reads \<open>this.state\<close>, that call makes no backend call and returns normally,
  whatever the backend would answer.
\<close>

theorem endSession_idempotent:
  "(sessionId st = [] \<longrightarrow>
      endStream st info destroyed = (st, [], None)
      \<and> resetStream cfg st info destroyed = (App_constructor cfg, [Terminate], None))
   \<and> (case resetStream_twice cfg st True info destroyed info' destroyed' of
        ((st1, es1, x1), second) \<Rightarrow>
          x1 = None \<longrightarrow>
            second = (App_constructor cfg, [Terminate], None)
            \<and> backend_calls es1 \<in>
                {[],
                 [GetStreamingSessionInfo (streamServer st) (sessionId st)],
                 [GetStreamingSessionInfo (streamServer st) (sessionId st),
                  DestroyStreamingSession (streamServer st) (sessionId st)]})"
proof -
  have none: "endStream s i d = (s, [], None)" if "sessionId s = []" for s :: "'a AppState" and i d
    using that by (simp add: endStream_def)
  have second: "resetStream cfg (App_constructor cfg :: 'a AppState) i d
                  = (App_constructor cfg, [Terminate], None)" for i d
    by (simp add: resetStream_def none App_constructor_def resetState_def)
  have first: "case resetStream cfg st info destroyed of
        (st1, es1, x1) \<Rightarrow>
          x1 = None \<longrightarrow> st1 = App_constructor cfg
            \<and> backend_calls es1 \<in>
                {[],
                 [GetStreamingSessionInfo (streamServer st) (sessionId st)],
                 [GetStreamingSessionInfo (streamServer st) (sessionId st),
                  DestroyStreamingSession (streamServer st) (sessionId st)]}"
    by (simp add: resetStream_def endStream_def resetState_constructor Let_def
        split: settled.splits option.splits)
  show ?thesis
  proof (intro conjI impI)
    assume e: "sessionId st = []"
    show "endStream st info destroyed = (st, [], None)"
      using e by (rule none)
    show "resetStream cfg st info destroyed = (App_constructor cfg, [Terminate], None)"
      by (simp add: resetStream_def none [OF e] resetState_constructor)
  next
    show "case resetStream_twice cfg st True info destroyed info' destroyed' of
        ((st1, es1, x1), second) \<Rightarrow>
          x1 = None \<longrightarrow>
            second = (App_constructor cfg, [Terminate], None)
            \<and> backend_calls es1 \<in>
                {[],
                 [GetStreamingSessionInfo (streamServer st) (sessionId st)],
                 [GetStreamingSessionInfo (streamServer st) (sessionId st),
                  DestroyStreamingSession (streamServer st) (sessionId st)]}"
      using first second by (auto simp: resetStream_twice_def split: prod.splits)
  qed
qed

theorem endSession_idempotent_witness:
  "resetStream_twice example_config streaming_state True
       (Fulfilled \<lparr> status = 200, data = Some example_item \<rparr>)
       (Fulfilled \<lparr> detail = None \<rparr>)
       (Fulfilled \<lparr> status = 200, data = Some example_item \<rparr>)
       (Fulfilled \<lparr> detail = None \<rparr>)
     = ((App_constructor example_config,
         [GetStreamingSessionInfo ''http://srv'' ''s1'',
          DestroyStreamingSession ''http://srv'' ''s1'',
          ConsoleInfo ''Streaming Session s1 Destroyed'',
          Terminate], None),
        (App_constructor example_config, [Terminate], None))
   \<and> sessionId (App_constructor example_config :: unit AppState) = []
   \<and> endStream (App_constructor example_config :: unit AppState) Rejected Rejected
     = (App_constructor example_config, [], None)"
proof -
  have first: "resetStream example_config streaming_state
       (Fulfilled \<lparr> status = 200, data = Some example_item \<rparr>)
       (Fulfilled \<lparr> detail = None \<rparr>)
     = (App_constructor example_config,
        [GetStreamingSessionInfo ''http://srv'' ''s1'',
         DestroyStreamingSession ''http://srv'' ''s1'',
         ConsoleInfo ''Streaming Session s1 Destroyed'',
         Terminate], None)"
    by (simp add: resetStream_def endStream_def resetState_constructor streaming_state_def
        awaiting_state_def example_config_def App_constructor_def Let_def)
  have e: "sessionId (App_constructor example_config :: unit AppState) = []"
    by (simp add: App_constructor_def)
  from endSession_idempotent [where st = streaming_state and cfg = example_config
      and info = "Fulfilled \<lparr> status = 200, data = Some example_item \<rparr>"
      and destroyed = "Fulfilled \<lparr> detail = None \<rparr>"
      and info' = "Fulfilled \<lparr> status = 200, data = Some example_item \<rparr>"
      and destroyed' = "Fulfilled \<lparr> detail = None \<rparr>"]
    endSession_idempotent [where st = "App_constructor example_config :: unit AppState"
      and cfg = example_config and info = Rejected and destroyed = Rejected
      and info' = Rejected and destroyed' = Rejected]
  show ?thesis
    by (simp add: first e resetStream_twice_def)
qed

text \<open>
  C6, as claimed, fails.  A second call that reads \<open>this.state\<close> before React has applied
  the reset of the first still finds the session id and repeats the query and the
  destroy call.  And when the query of the first call is rejected the call does not
  reset: the second call queries again, and is rejected in the same way.
\<close>

theorem endSession_twice_counterexample:
  "resetStream_twice example_config streaming_state False
       (Fulfilled \<lparr> status = 200, data = Some example_item \<rparr>)
       (Fulfilled \<lparr> detail = None \<rparr>)
       (Fulfilled \<lparr> status = 200, data = Some example_item \<rparr>)
       (Fulfilled \<lparr> detail = None \<rparr>)
     = ((App_constructor example_config,
         [GetStreamingSessionInfo ''http://srv'' ''s1'',
          DestroyStreamingSession ''http://srv'' ''s1'',
          ConsoleInfo ''Streaming Session s1 Destroyed'',
          Terminate], None),
        (App_constructor example_config,
         [GetStreamingSessionInfo ''http://srv'' ''s1'',
          DestroyStreamingSession ''http://srv'' ''s1'',
          ConsoleInfo ''Streaming Session s1 Destroyed'',
          Terminate], None))
   \<and> resetStream_twice example_config streaming_state True Rejected Rejected Rejected Rejected
     = ((streaming_state, [GetStreamingSessionInfo ''http://srv'' ''s1''], Some Rejection),
        (streaming_state, [GetStreamingSessionInfo ''http://srv'' ''s1''], Some Rejection))"
  by (simp add: resetStream_twice_def resetStream_def endStream_def resetState_constructor
      streaming_state_def awaiting_state_def example_config_def App_constructor_def Let_def)

section \<open>Properties of the event dispatcher\<close>

subsection \<open>Proof-of-life responses\<close>


lemma kit_recipient_outbound: "outbound (fst (kit_recipient ev)) = []"
  by (simp add: kit_recipient_def split: parsed.splits)












subsection \<open>Stage results and unknown tags\<close>

text \<open>
  C8.  For an \<open>openedStageResult\<close> event whose payload has a \<open>result\<close> other than
  \<open>success\<close> the handler logs the load error first, sends no message and queues no
  update of the state; what follows the error is the output of the handler's last
  statement.
\<close>

theorem failed_open_reports_only:
  assumes "event_type ev = Some ''openedStageResult''"
    and "payload ev = Some p"
    and "result p \<noteq> Some ''success''"
  shows "case handleCustomEvent seen queued (Some ev) of
           (queued', es, x) \<Rightarrow>
             queued' = queued \<and> outbound es = []
             \<and> es = ConsoleError (''Kit App communicates there was an error loading: ''
                                   @ js_string (url p)) # fst (kit_recipient ev)"
  using assms
  by (simp add: handleCustomEvent_def dispatch_tag_def kit_recipient_def
      split: prod.splits parsed.splits)

theorem failed_open_reports_only_witness:
  "handleCustomEvent (Window_constructor example_config) (Window_constructor example_config)
       (Some failed_open_event) =
     (Window_constructor example_config,
      [ConsoleError ''Kit App communicates there was an error loading: stage.usd''], None)
   \<and> result \<lparr> result = Some ''error'', url = Some ''stage.usd'' \<rparr> \<noteq> Some ''success''"
proof -
  have h1: "event_type failed_open_event = Some ''openedStageResult''"
    and h2: "payload failed_open_event = Some \<lparr> result = Some ''error'', url = Some ''stage.usd'' \<rparr>"
    by (simp_all add: failed_open_event_def)
  have h3: "result \<lparr> result = Some ''error'', url = Some ''stage.usd'' \<rparr> \<noteq> Some ''success''"
    by simp
  have run: "handleCustomEvent (Window_constructor example_config)
       (Window_constructor example_config) (Some failed_open_event) =
     (Window_constructor example_config,
      [ConsoleError ''Kit App communicates there was an error loading: stage.usd''], None)"
    by (simp add: handleCustomEvent_def dispatch_tag_def kit_recipient_def
        failed_open_event_def)
  from failed_open_reports_only [OF h1 h2 h3, of "Window_constructor example_config"
      "Window_constructor example_config"] run h3
  show ?thesis
    by simp
qed

text \<open>
  C9, as the code has it.  For an event whose \<open>event_type\<close> is none of the four tags the
  handler queues no update of the state and sends no message.  When \<open>messageRecipient\<close> is
  not \<open>kit\<close> there is no effect at all and no exception.  When it is \<open>kit\<close>, the handler
  logs \<open>onCustomEvent\<close> and then the \<open>event_type\<close> of the parsed \<open>data\<close>; it returns
  normally exactly when \<open>data\<close> parses to a value other than \<open>null\<close>.
\<close>

theorem unknown_event_no_effect:
  assumes "event_type ev \<notin> {Some ''openedStageResult'', Some ''loadingStateResponse'',
                             Some ''updateProgressAmount'', Some ''updateProgressActivity''}"
  shows "case handleCustomEvent seen queued (Some ev) of
           (queued', es, x) \<Rightarrow>
             queued' = queued \<and> outbound es = []
             \<and> (messageRecipient ev \<noteq> Some ''kit'' \<longrightarrow> es = [] \<and> x = None)
             \<and> (messageRecipient ev = Some ''kit'' \<longrightarrow>
                  (case data_parsed ev of
                     JSONValue t \<Rightarrow>
                       es = [ConsoleLog ''onCustomEvent'', ConsoleLog (js_string t)] \<and> x = None
                   | _ \<Rightarrow> es = [ConsoleLog ''onCustomEvent''] \<and> x \<noteq> None))"
  using assms
  by (simp add: handleCustomEvent_def dispatch_tag_def kit_recipient_def
      split: prod.splits parsed.splits)

theorem unknown_event_no_effect_witness:
  "handleCustomEvent (Window_constructor example_config) (Window_constructor example_config)
       (Some unknown_event) =
     (Window_constructor example_config, [], None)
   \<and> messageRecipient unknown_event \<noteq> Some ''kit''"
proof -
  have h: "event_type unknown_event \<notin> {Some ''openedStageResult'', Some ''loadingStateResponse'',
                             Some ''updateProgressAmount'', Some ''updateProgressActivity''}"
    by (simp add: unknown_event_def)
  have k: "messageRecipient unknown_event \<noteq> Some ''kit''"
    by (simp add: unknown_event_def)
  from unknown_event_no_effect [OF h, of "Window_constructor example_config"
      "Window_constructor example_config"] k
  show ?thesis
    by (simp split: prod.splits)
qed

text \<open>
  C9, as claimed, fails: an event with an unknown tag, \<open>messageRecipient\<close> \<open>kit\<close> and no
  \<open>data\<close> property makes \<open>JSON.parse\<close> throw a \<open>SyntaxError\<close> out of the handler.
\<close>

theorem unknown_event_throws_counterexample:
  "handleCustomEvent (Window_constructor example_config) (Window_constructor example_config)
       (Some unknown_kit_event) =
     (Window_constructor example_config, [ConsoleLog ''onCustomEvent''], Some SyntaxError)"
  by (simp add: handleCustomEvent_def dispatch_tag_def kit_recipient_def unknown_kit_event_def)

subsection \<open>The proof-of-life poll\<close>

lemma upt_shift: "map f [0..<Suc n] = f 0 # map (\<lambda>k. f (Suc k)) [0..<n]"
  by (simp only: upt_conv_Cons [of 0 "Suc n"] map_Suc_upt [symmetric]) (simp add: comp_def)

lemma kitPollChain_not_ready:
  assumes "\<not> isKitReady st"
  shows "send_times (kitPollChain t n st) = map (\<lambda>k. t + 3000 * k) [0..<Suc n]"
proof (induction n arbitrary: t)
  case 0
  from assms show ?case
    by (simp add: pollForKitReady_def queryLoadingState_def)
next
  case (Suc n)
  have "map (\<lambda>k. t + 3000 * k) [0..<Suc (Suc n)]
          = t # map (\<lambda>k. (t + 3000) + 3000 * k) [0..<Suc n]"
    by (subst upt_shift) (simp add: algebra_simps)
  with Suc [of "t + 3000"] assms show ?case
    by (simp add: pollForKitReady_def queryLoadingState_def del: upt_Suc)
qed

lemma kitPollChain_ready:
  assumes "isKitReady st"
  shows "kitPollChain t n st = []"
  using assms by (cases n) (simp_all add: pollForKitReady_def)

text \<open>
  C10.  While \<open>isKitReady\<close> is false, \<open>_onStreamStarted\<close> and every later run of
  \<open>_pollForKitReady\<close> send the \<open>loadingStateQuery\<close> message once and set one timer of
  3000 ms for the next run, so that the chain started at time \<open>t\<close> has sent at \<open>t\<close>,
  \<open>t + 3000\<close>, ..., \<open>t + 3000 * n\<close> after \<open>n\<close> firings, for every \<open>n\<close>.  When \<open>isKitReady\<close> is
  true a run of the poll sends nothing and sets no timer, and the chain is over.
\<close>

theorem kit_poll_until_ready:
  "(\<not> isKitReady st \<longrightarrow>
      onStreamStarted st =
        (st, [ConsoleInfo ''polling Kit availability'',
              SendMessage ''{\"event_type\":\"loadingStateQuery\",\"payload\":{}}'',
              SetTimeout PollForKitReady 3000])
      \<and> pollForKitReady st =
        (st, [ConsoleInfo ''polling Kit availability'',
              SendMessage ''{\"event_type\":\"loadingStateQuery\",\"payload\":{}}'',
              SetTimeout PollForKitReady 3000])
      \<and> send_times (kitPollChain t n st) = map (\<lambda>k. t + 3000 * k) [0..<Suc n])
   \<and> (isKitReady st \<longrightarrow>
      pollForKitReady st = (st, []) \<and> kitPollChain t n st = [])"
  by (simp add: kitPollChain_not_ready kitPollChain_ready onStreamStarted_def
      pollForKitReady_def queryLoadingState_def loadingStateQuery_def del: upt_Suc)

theorem kit_poll_until_ready_witness:
  "\<not> isKitReady (Window_constructor example_config)
   \<and> send_times (kitPollChain 0 3 (Window_constructor example_config)) = [0, 3000, 6000, 9000]
   \<and> deliver example_config (Window_constructor example_config, Window_constructor example_config)
       [Call Started, Call Timer, Call (Custom (Some loadingStateResponse_event)), Flush,
        Call Timer]
     = (((Window_constructor example_config)\<lparr> isKitReady := True \<rparr>,
         (Window_constructor example_config)\<lparr> isKitReady := True \<rparr>),
        [ConsoleInfo ''polling Kit availability'',
         SendMessage ''{\"event_type\":\"loadingStateQuery\",\"payload\":{}}'',
         SetTimeout PollForKitReady 3000,
         ConsoleInfo ''polling Kit availability'',
         SendMessage ''{\"event_type\":\"loadingStateQuery\",\"payload\":{}}'',
         SetTimeout PollForKitReady 3000,
         ConsoleInfo ''Kit is ready to load assets'',
         SendMessage ''{\"event_type\":\"loadingStateQuery\",\"payload\":{}}''])
   \<and> pollForKitReady ((Window_constructor example_config)\<lparr> isKitReady := True \<rparr>)
     = ((Window_constructor example_config)\<lparr> isKitReady := True \<rparr>, [])"
proof -
  have n: "\<not> isKitReady (Window_constructor example_config)"
    by (simp add: Window_constructor_def)
  have k: "isKitReady ((Window_constructor example_config)\<lparr> isKitReady := True \<rparr>)"
    by simp
  have d: "deliver example_config
       (Window_constructor example_config, Window_constructor example_config)
       [Call Started, Call Timer, Call (Custom (Some loadingStateResponse_event)), Flush,
        Call Timer]
     = (((Window_constructor example_config)\<lparr> isKitReady := True \<rparr>,
         (Window_constructor example_config)\<lparr> isKitReady := True \<rparr>),
        [ConsoleInfo ''polling Kit availability'',
         SendMessage ''{\"event_type\":\"loadingStateQuery\",\"payload\":{}}'',
         SetTimeout PollForKitReady 3000,
         ConsoleInfo ''polling Kit availability'',
         SendMessage ''{\"event_type\":\"loadingStateQuery\",\"payload\":{}}'',
         SetTimeout PollForKitReady 3000,
         ConsoleInfo ''Kit is ready to load assets'',
         SendMessage ''{\"event_type\":\"loadingStateQuery\",\"payload\":{}}''])"
    by (simp add: onStreamStarted_def pollForKitReady_def queryLoadingState_def
        loadingStateQuery_def handleCustomEvent_def dispatch_tag_def kit_recipient_def
        loadingStateResponse_event_def Window_constructor_def)
  have u: "[0..<Suc 3] = [0, 1, 2, 3]"
    by (simp add: upt_rec)
  from kit_poll_until_ready [of "Window_constructor example_config" 0 3]
    kit_poll_until_ready [of "(Window_constructor example_config)\<lparr> isKitReady := True \<rparr>" 0 3]
    n k d u
  show ?thesis
    by (simp del: upt_Suc)
qed

end
